theory Spec2Isabelle
  imports Complex_Main "HOL-Library.Multiset" "HOL-Library.Product_Lexorder"
begin

section \<open>The Fetcher: \<open>scrape_nifty50_data\<close>\<close>

subsection \<open>Values, exceptions and the outside world\<close>

text \<open>
  A parsed JSON document, as Python's \<open>json\<close> module returns it. Numbers are kept as
  exact reals (the Fetcher never computes with them). A \<open>JDict\<close> lists each key
  once, as a Python dict does; lookup is \<open>map_of\<close>. A text is kept as the bytes
  of its UTF-8 encoding; a lone surrogate, which \<open>json.loads\<close> lets through and
  strict UTF-8 cannot encode, as the three bytes \<open>ED A0..BF xx\<close>.
\<close>

datatype json =
    JNull
  | JBool bool
  | JNum real
  | JStr string
  | JList "json list"
  | JDict "(string \<times> json) list"

text \<open>
  The exception classes the function can meet. \<open>RequestException\<close> stands for
  \<open>requests.exceptions.RequestException\<close> and its subclasses (connection errors,
  timeouts). All of them derive from Python's \<open>Exception\<close>.
\<close>

datatype exn =
    RequestException
  | BadGzipFile
  | UnicodeDecodeError
  | JSONDecodeError
  | AttributeError
  | TypeError
  | ValueError
  | UnicodeEncodeError
  | OSError

record response =
  status_code :: int
  headers :: "(string \<times> string) list"
  content :: string

text \<open>
  The library functions the function relies on. For the three of the body parsing
  \<open>None\<close> is the call raising: \<open>json_loads\<close> raises a \<open>ValueError\<close> subclass,
  \<open>gzip_decompress\<close> raises \<open>BadGzipFile\<close>, \<open>decode_utf8\<close> raises
  \<open>UnicodeDecodeError\<close>. \<open>write_line\<close> is the underlying \<open>csv.writer\<close> writing
  one line through the file opened with \<open>encoding="utf-8"\<close>: \<open>None\<close> when the line
  is written, \<open>Some e\<close> when writing it raises \<open>e\<close> (\<open>UnicodeEncodeError\<close> for a
  text that UTF-8 cannot encode, \<open>OSError\<close> from the file).
\<close>

record lib =
  json_loads :: "string \<Rightarrow> json option"
  gzip_decompress :: "string \<Rightarrow> string option"
  decode_utf8 :: "string \<Rightarrow> string option"
  write_line :: "json list \<Rightarrow> exn option"

text \<open>
  A table is the lines the CSV writer has written: the header line and one list of
  cells per \<open>writerow\<close>. A cell is the value handed over, the empty string being the
  empty cell; how the writer renders a value as text (quoting, \<open>str\<close> of a number) is
  the \<open>csv\<close> module's and is not modelled. The file system maps a file name to its
  table.
\<close>

type_synonym table = "json list list"

record world =
  homepage :: "exn + response"
  api :: "exn + response"
  open_error :: "exn option"
  fs :: "string \<rightharpoonup> table"

text \<open>One constructor per \<open>print\<close> of the function.\<close>

datatype msg =
    HomepageHTTP int
  | HomepageUnreachable exn
  | StatusCode int
  | Headers "(string \<times> string) list"
  | ErrorHTTP int
  | Content string
  | FetchFailed exn
  | NoStockData
  | Saved string
  | CsvError exn

datatype outcome = Returned | Raised exn

record run =
  outcome :: outcome
  stdout :: "msg list"
  files :: "string \<rightharpoonup> table"

subsection \<open>The steps of the function\<close>

definition csv_headers :: "string list" where
  "csv_headers =
     [''symbol'', ''open'', ''dayHigh'', ''dayLow'', ''lastPrice'', ''previousClose'',
      ''change'', ''pChange'', ''totalTradedVolume'', ''totalTradedValue'', ''yearHigh'',
      ''yearLow'', ''lastUpdateTime'', ''perChange30d'']"

text \<open>
  Lines 36-43: the request to the home page. \<open>Some oc\<close> ends the call with outcome
  \<open>oc\<close>; only \<open>RequestException\<close> is caught.
\<close>

definition prime :: "world \<Rightarrow> msg list \<times> outcome option" where
  "prime w =
     (case homepage w of
        Inl e \<Rightarrow>
          if e = RequestException then ([HomepageUnreachable e], Some Returned)
          else ([], Some (Raised e))
      | Inr r \<Rightarrow>
          if status_code r \<noteq> 200 then ([HomepageHTTP (status_code r)], Some Returned)
          else ([], None))"

text \<open>
  Lines 59-64: \<open>response.json()\<close>, and in the handler of its \<open>ValueError\<close> the
  manual decompression. What the handler raises is not caught by the handler itself.
\<close>

definition parse_body :: "lib \<Rightarrow> response \<Rightarrow> exn + json" where
  "parse_body l r =
     (case json_loads l (content r) of
        Some d \<Rightarrow> Inr d
      | None \<Rightarrow>
          (case gzip_decompress l (content r) of
             None \<Rightarrow> Inl BadGzipFile
           | Some bs \<Rightarrow>
               (case decode_utf8 l bs of
                  None \<Rightarrow> Inl UnicodeDecodeError
                | Some t \<Rightarrow>
                    (case json_loads l t of
                       None \<Rightarrow> Inl JSONDecodeError
                     | Some d \<Rightarrow> Inr d))))"

text \<open>Lines 65-67: the handler of the outer \<open>try\<close>, for \<open>RequestException\<close> only.\<close>

definition fetch_handler :: "exn \<Rightarrow> msg list \<Rightarrow> msg list \<times> (outcome + json)" where
  "fetch_handler e out =
     (if e = RequestException then (out @ [FetchFailed e], Inl Returned)
      else (out, Inl (Raised e)))"

text \<open>Lines 49-67: the request to the API and the parsing of its body.\<close>

definition fetch :: "lib \<Rightarrow> world \<Rightarrow> msg list \<times> (outcome + json)" where
  "fetch l w =
     (case api w of
        Inl e \<Rightarrow> fetch_handler e []
      | Inr r \<Rightarrow>
          (let out = [StatusCode (status_code r), Headers (headers r)] in
           if status_code r \<noteq> 200
           then (out @ [ErrorHTTP (status_code r), Content (content r)], Inl Returned)
           else (case parse_body l r of
                   Inl e \<Rightarrow> fetch_handler e out
                 | Inr d \<Rightarrow> (out, Inr d))))"

text \<open>\<open>d.get(k, default)\<close>: only a dict has the method.\<close>

fun dict_get :: "json \<Rightarrow> string \<Rightarrow> json \<Rightarrow> exn + json" where
  "dict_get (JDict kvs) k d = Inr (case map_of kvs k of Some v \<Rightarrow> v | None \<Rightarrow> d)"
| "dict_get _ k d = Inl AttributeError"

text \<open>Python's truth value of a JSON value, for \<open>if not stock_data_list\<close>.\<close>

fun truthy :: "json \<Rightarrow> bool" where
  "truthy JNull = False"
| "truthy (JBool b) = b"
| "truthy (JNum x) = (x \<noteq> 0)"
| "truthy (JStr s) = (s \<noteq> [])"
| "truthy (JList xs) = (xs \<noteq> [])"
| "truthy (JDict kvs) = (kvs \<noteq> [])"

text \<open>
  What \<open>for stock in stock_data_list\<close> iterates over: the elements of a list, the
  keys of a dict, the characters of a string; anything else is not iterable.
\<close>

fun py_iter :: "json \<Rightarrow> exn + json list" where
  "py_iter (JList xs) = Inr xs"
| "py_iter (JDict kvs) = Inr (map (\<lambda>kv. JStr (fst kv)) kvs)"
| "py_iter (JStr s) = Inr (map (\<lambda>c. JStr [c]) s)"
| "py_iter _ = Inl TypeError"

text \<open>Lines 98-113: the row built from one element, key by key.\<close>

definition make_row :: "json \<Rightarrow> exn + (string \<times> json) list" where
  "make_row stock =
     (case stock of
        JDict kvs \<Rightarrow>
          (let g = (\<lambda>k. case map_of kvs k of Some v \<Rightarrow> v | None \<Rightarrow> JStr '''') in
           Inr [(''symbol'', g ''symbol''),
                (''open'', g ''open''),
                (''dayHigh'', g ''dayHigh''),
                (''dayLow'', g ''dayLow''),
                (''lastPrice'', g ''lastPrice''),
                (''previousClose'', g ''previousClose''),
                (''change'', g ''change''),
                (''pChange'', g ''pChange''),
                (''totalTradedVolume'', g ''totalTradedVolume''),
                (''totalTradedValue'', g ''totalTradedValue''),
                (''yearHigh'', g ''yearHigh''),
                (''yearLow'', g ''yearLow''),
                (''lastUpdateTime'', g ''lastUpdateTime''),
                (''perChange30d'', g ''perChange30d'')])
      | _ \<Rightarrow> Inl AttributeError)"

text \<open>
  \<open>csv.DictWriter\<close>. \<open>_dict_to_list\<close> refuses a row with a key outside the field
  names (\<open>extrasaction='raise'\<close>) and otherwise lists the row's value for each field
  name in turn, the empty string (\<open>restval\<close>) where the row has none. \<open>writerow\<close>
  hands that list to the underlying writer, which may raise. \<open>writeheader\<close> is
  \<open>writerow\<close> of the row that maps each field name to itself. \<open>Inr\<close> carries the
  line written.
\<close>

definition dict_to_list :: "string list \<Rightarrow> (string \<times> json) list \<Rightarrow> exn + json list" where
  "dict_to_list fieldnames rowdict =
     (if \<exists>k \<in> set (map fst rowdict). k \<notin> set fieldnames then Inl ValueError
      else Inr (map (\<lambda>k. case map_of rowdict k of Some v \<Rightarrow> v | None \<Rightarrow> JStr '''')
                  fieldnames))"

definition writerow :: "lib \<Rightarrow> string list \<Rightarrow> (string \<times> json) list \<Rightarrow> exn + json list" where
  "writerow l fieldnames rowdict =
     (case dict_to_list fieldnames rowdict of
        Inl e \<Rightarrow> Inl e
      | Inr line \<Rightarrow> (case write_line l line of Some e \<Rightarrow> Inl e | None \<Rightarrow> Inr line))"

definition writeheader :: "lib \<Rightarrow> string list \<Rightarrow> exn + json list" where
  "writeheader l fieldnames = writerow l fieldnames (map (\<lambda>k. (k, JStr k)) fieldnames)"

text \<open>
  Lines 97-114: the loop. It stops at the first element that raises, in building the row
  or in writing it, and keeps the lines written so far.
\<close>

fun write_rows :: "lib \<Rightarrow> json list \<Rightarrow> table \<Rightarrow> exn option \<times> table" where
  "write_rows l [] t = (None, t)"
| "write_rows l (stock # rest) t =
     (case make_row stock of
        Inl e \<Rightarrow> (Some e, t)
      | Inr row \<Rightarrow>
          (case writerow l csv_headers row of
             Inl e \<Rightarrow> (Some e, t)
           | Inr line \<Rightarrow> write_rows l rest (t @ [line])))"

text \<open>
  Lines 93-117: opening the file in mode \<open>w\<close> empties it; every exception of the
  block is caught and reported, and the file keeps the lines written before it.
\<close>

definition write_csv ::
  "lib \<Rightarrow> string \<Rightarrow> json \<Rightarrow> world \<Rightarrow> msg list \<times> (string \<rightharpoonup> table)" where
  "write_csv l csv_filename stock_data_list w =
     (case open_error w of
        Some e \<Rightarrow> ([CsvError e], fs w)
      | None \<Rightarrow>
          (case writeheader l csv_headers of
             Inl e \<Rightarrow> ([CsvError e], (fs w)(csv_filename \<mapsto> []))
           | Inr header \<Rightarrow>
               (case py_iter stock_data_list of
                  Inl e \<Rightarrow> ([CsvError e], (fs w)(csv_filename \<mapsto> [header]))
                | Inr stocks \<Rightarrow>
                    (case write_rows l stocks [header] of
                       (Some e, t) \<Rightarrow> ([CsvError e], (fs w)(csv_filename \<mapsto> t))
                     | (None, t) \<Rightarrow> ([Saved csv_filename], (fs w)(csv_filename \<mapsto> t))))))"

definition scrape_nifty50_data :: "lib \<Rightarrow> string \<Rightarrow> world \<Rightarrow> run" where
  "scrape_nifty50_data l csv_filename w =
     (case prime w of
        (m1, Some oc) \<Rightarrow> \<lparr>outcome = oc, stdout = m1, files = fs w\<rparr>
      | (m1, None) \<Rightarrow>
          (case fetch l w of
             (m2, Inl oc) \<Rightarrow> \<lparr>outcome = oc, stdout = m1 @ m2, files = fs w\<rparr>
           | (m2, Inr data) \<Rightarrow>
               (case dict_get data ''data'' (JList []) of
                  Inl e \<Rightarrow> \<lparr>outcome = Raised e, stdout = m1 @ m2, files = fs w\<rparr>
                | Inr stock_data_list \<Rightarrow>
                    if \<not> truthy stock_data_list
                    then \<lparr>outcome = Returned, stdout = m1 @ m2 @ [NoStockData],
                          files = fs w\<rparr>
                    else (case write_csv l csv_filename stock_data_list w of
                            (m3, f) \<Rightarrow>
                              \<lparr>outcome = Returned, stdout = m1 @ m2 @ m3, files = f\<rparr>))))"

section \<open>The Analyzer: \<open>analyze_and_visualize\<close>\<close>

subsection \<open>Numbers\<close>

text \<open>
  A float64 cell: a finite number (\<open>Fin 0\<close> is +0, \<open>NZero\<close> is -0), an infinity, or
  NaN (a missing value). The arithmetic is that of IEEE 754 binary64 as numpy uses it:
  an operation computes the exact result and rounds it to the nearest float, ties to the
  even one; a division by zero gives an infinity or NaN and does not raise; every
  comparison with NaN is false. A column of whole numbers, which pandas keeps as int64,
  is taken as the same numbers in float64 (the two agree below \<open>2 ^ 53\<close>).
\<close>

datatype fval = Fin real | NZero | PInf | NInf | NaN

text \<open>
  The binary exponent of a positive number \<open>a\<close>, kept within -1022 .. 1024:
  \<open>2 ^ e \<le> a < 2 ^ (e + 1)\<close>, with -1022 for everything below (the subnormal
  numbers) and 1024 for everything from \<open>2 ^ 1024\<close> on.
\<close>

fun up :: "nat \<Rightarrow> real \<Rightarrow> int" where
  "up 0 a = 0"
| "up (Suc k) a = (if 2 \<le> a then up k (a / 2) + 1 else 0)"

fun down :: "nat \<Rightarrow> real \<Rightarrow> int" where
  "down 0 a = 0"
| "down (Suc k) a = (if a < 1 then down k (2 * a) - 1 else 0)"

definition expo :: "real \<Rightarrow> int" where
  "expo a = (if 1 \<le> a then up 1024 a else down 1022 a)"

text \<open>Rounding to the nearest integer, a tie to the even one.\<close>

definition rhe :: "real \<Rightarrow> int" where
  "rhe r = (let f = \<lfloor>r\<rfloor>; d = r - of_int f in
            if d < 1 / 2 then f else if 1 / 2 < d then f + 1
            else if even f then f else f + 1)"

text \<open>
  Rounding a magnitude to 53 significant bits: to the nearest multiple of
  \<open>2 ^ (e - 52)\<close>. Rounding a real to a float: the magnitude is rounded, a result
  from \<open>2 ^ 1024\<close> on is an infinity, and a result that is zero keeps the sign.
\<close>

definition grid :: "real \<Rightarrow> real" where
  "grid a = (let q = 2 powi (expo a - 52) in of_int (rhe (a / q)) * q)"

definition rnd :: "real \<Rightarrow> fval" where
  "rnd x = (let y = grid \<bar>x\<bar> in
     if 2 ^ 1024 \<le> y then (if x < 0 then NInf else PInf)
     else if y = 0 then (if x < 0 then NZero else Fin 0)
     else Fin (if x < 0 then - y else y))"

text \<open>The sign bit, the value of a finite float, and the zero and infinity of a sign.\<close>

fun sign_bit :: "fval \<Rightarrow> bool" where
  "sign_bit (Fin x) = (x < 0)"
| "sign_bit NZero = True"
| "sign_bit PInf = False"
| "sign_bit NInf = True"
| "sign_bit NaN = False"

fun val :: "fval \<Rightarrow> real" where
  "val (Fin x) = x"
| "val a = 0"

fun is_inf :: "fval \<Rightarrow> bool" where
  "is_inf PInf = True"
| "is_inf NInf = True"
| "is_inf a = False"

definition fzero :: "bool \<Rightarrow> fval" where
  "fzero s = (if s then NZero else Fin 0)"

definition finf :: "bool \<Rightarrow> fval" where
  "finf s = (if s then NInf else PInf)"

text \<open>
  Multiplication, subtraction and division. The sign of a product or quotient is the
  exclusive or of the signs; infinity times zero, infinity minus infinity, infinity by
  infinity and zero by zero are NaN; a difference that is exactly zero is +0, except
  that -0 minus +0 is -0.
\<close>

definition fmul :: "fval \<Rightarrow> fval \<Rightarrow> fval" where
  "fmul a b =
     (if a = NaN \<or> b = NaN then NaN
      else if is_inf a \<or> is_inf b then
        (if (\<not> is_inf a \<and> val a = 0) \<or> (\<not> is_inf b \<and> val b = 0) then NaN
         else finf (sign_bit a \<noteq> sign_bit b))
      else if val a * val b = 0 then fzero (sign_bit a \<noteq> sign_bit b)
      else rnd (val a * val b))"

definition fsub :: "fval \<Rightarrow> fval \<Rightarrow> fval" where
  "fsub a b =
     (if a = NaN \<or> b = NaN then NaN
      else if is_inf a then (if is_inf b \<and> sign_bit a = sign_bit b then NaN else a)
      else if is_inf b then finf (\<not> sign_bit b)
      else if val a - val b = 0 then fzero (a = NZero \<and> b \<noteq> NZero)
      else rnd (val a - val b))"

definition fdiv :: "fval \<Rightarrow> fval \<Rightarrow> fval" where
  "fdiv a b =
     (if a = NaN \<or> b = NaN then NaN
      else if is_inf a then (if is_inf b then NaN else finf (sign_bit a \<noteq> sign_bit b))
      else if is_inf b then fzero (sign_bit a \<noteq> sign_bit b)
      else if val b = 0 then (if val a = 0 then NaN else finf (sign_bit a \<noteq> sign_bit b))
      else if val a = 0 then fzero (sign_bit a \<noteq> sign_bit b)
      else rnd (val a / val b))"

text \<open>
  The position of a float in the ascending order: \<open>-inf\<close>, the finite numbers (both
  zeros at the same place), \<open>+inf\<close>. The comparisons \<open><=\<close> and \<open>>=\<close>.
\<close>

fun ford :: "fval \<Rightarrow> int \<times> real" where
  "ford NInf = (- 1, 0)"
| "ford (Fin x) = (0, x)"
| "ford NZero = (0, 0)"
| "ford PInf = (1, 0)"
| "ford NaN = (2, 0)"

definition fle :: "fval \<Rightarrow> fval \<Rightarrow> bool" where
  "fle a b = (a \<noteq> NaN \<and> b \<noteq> NaN \<and> ford a \<le> ford b)"

definition fge :: "fval \<Rightarrow> fval \<Rightarrow> bool" where
  "fge a b = fle b a"

subsection \<open>The frame\<close>

text \<open>
  A cell as \<open>read_csv\<close> delivers it: text, or a float (NaN for a blank cell). A row
  has the fourteen columns of the file; \<open>'t\<close> is the type of the two text columns,
  \<open>'n\<close> that of the twelve numeric ones.
\<close>

datatype cell = Str string | Flt fval

record ('t, 'n) quote =
  symbol :: 't
  open' :: 'n
  dayHigh :: 'n
  dayLow :: 'n
  lastPrice :: 'n
  previousClose :: 'n
  change :: 'n
  pChange :: 'n
  totalTradedVolume :: 'n
  totalTradedValue :: 'n
  yearHigh :: 'n
  yearLow :: 'n
  lastUpdateTime :: 't
  perChange30d :: 'n

record ('t, 'n) below_high = "('t, 'n) quote" +
  pctBelowHigh :: 'n

record ('t, 'n) above_low = "('t, 'n) quote" +
  pctAboveLow :: 'n

text \<open>
  \<open>pd.to_numeric(_, errors='coerce')\<close> on one cell: a float stays, a text is parsed
  and becomes NaN when it is not a number. The parser of number texts is pandas' own and
  is a parameter.
\<close>

fun to_numeric :: "(string \<Rightarrow> fval option) \<Rightarrow> cell \<Rightarrow> fval" where
  "to_numeric parse (Flt x) = x"
| "to_numeric parse (Str s) = (case parse s of Some x \<Rightarrow> x | None \<Rightarrow> NaN)"

text \<open>Lines 124-129: the loop over \<open>numeric_columns\<close>, on one row.\<close>

definition coerce_row ::
  "(string \<Rightarrow> fval option) \<Rightarrow> (cell, cell) quote \<Rightarrow> (cell, fval) quote" where
  "coerce_row parse r =
     \<lparr>symbol = symbol r,
      open' = to_numeric parse (open' r),
      dayHigh = to_numeric parse (dayHigh r),
      dayLow = to_numeric parse (dayLow r),
      lastPrice = to_numeric parse (lastPrice r),
      previousClose = to_numeric parse (previousClose r),
      change = to_numeric parse (change r),
      pChange = to_numeric parse (pChange r),
      totalTradedVolume = to_numeric parse (totalTradedVolume r),
      totalTradedValue = to_numeric parse (totalTradedValue r),
      yearHigh = to_numeric parse (yearHigh r),
      yearLow = to_numeric parse (yearLow r),
      lastUpdateTime = lastUpdateTime r,
      perChange30d = to_numeric parse (perChange30d r)\<rparr>"

definition coerce ::
  "(string \<Rightarrow> fval option) \<Rightarrow> (cell, cell) quote list \<Rightarrow> (cell, fval) quote list" where
  "coerce parse df = map (coerce_row parse) df"

subsection \<open>Sorting by a column\<close>


text \<open>
  \<open>DataFrame.sort_values(by, ascending)\<close> as pandas' \<open>nargsort\<close> does it: the rows
  whose key is NaN are set aside and come last in either direction; the others are
  sorted ascending by \<open>ford\<close>, and for a descending sort the rows are reversed
  before and after. The sort used here keeps rows of equal key in their order.
\<close>

definition sort_values :: "('r \<Rightarrow> fval) \<Rightarrow> bool \<Rightarrow> 'r list \<Rightarrow> 'r list" where
  "sort_values by ascending df =
     (let non_nan = filter (\<lambda>r. by r \<noteq> NaN) df;
          nan = filter (\<lambda>r. by r = NaN) df
      in (if ascending then sort_key (\<lambda>r. ford (by r)) non_nan
          else rev (sort_key (\<lambda>r. ford (by r)) (rev non_nan))) @ nan)"

definition head :: "nat \<Rightarrow> 'r list \<Rightarrow> 'r list" where
  "head n df = take n df"

subsection \<open>The views\<close>

text \<open>Lines 132-133.\<close>

definition top5_gainers :: "('t, fval) quote list \<Rightarrow> ('t, fval) quote list" where
  "top5_gainers df = head 5 (sort_values pChange False df)"

definition top5_losers :: "('t, fval) quote list \<Rightarrow> ('t, fval) quote list" where
  "top5_losers df = head 5 (sort_values pChange True df)"

text \<open>
  Lines 142-145. The literal \<open>0.70\<close> is the float nearest to 7/10; the integer
  \<open>100\<close> becomes the float 100.
\<close>

definition below_high_mask :: "('t, fval) quote \<Rightarrow> bool" where
  "below_high_mask r = fle (lastPrice r) (fmul (rnd 0.70) (yearHigh r))"

definition add_pctBelowHigh :: "('t, fval) quote \<Rightarrow> ('t, fval) below_high" where
  "add_pctBelowHigh r =
     quote.extend r
       (below_high.fields
          (fmul (fdiv (fsub (yearHigh r) (lastPrice r)) (yearHigh r)) (Fin 100)))"

definition df_below_high :: "('t, fval) quote list \<Rightarrow> ('t, fval) below_high list" where
  "df_below_high df = map add_pctBelowHigh (filter below_high_mask df)"

definition stocks_30_below_high ::
  "('t, fval) quote list \<Rightarrow> ('t, fval) below_high list" where
  "stocks_30_below_high df = head 5 (sort_values pctBelowHigh False (df_below_high df))"

text \<open>Lines 151-154. The literal \<open>1.20\<close> is the float nearest to 12/10.\<close>

definition above_low_mask :: "('t, fval) quote \<Rightarrow> bool" where
  "above_low_mask r = fge (lastPrice r) (fmul (rnd 1.20) (yearLow r))"

definition add_pctAboveLow :: "('t, fval) quote \<Rightarrow> ('t, fval) above_low" where
  "add_pctAboveLow r =
     quote.extend r
       (above_low.fields
          (fmul (fdiv (fsub (lastPrice r) (yearLow r)) (yearLow r)) (Fin 100)))"

definition df_above_low :: "('t, fval) quote list \<Rightarrow> ('t, fval) above_low list" where
  "df_above_low df = map add_pctAboveLow (filter above_low_mask df)"

definition stocks_20_above_low ::
  "('t, fval) quote list \<Rightarrow> ('t, fval) above_low list" where
  "stocks_20_above_low df = head 5 (sort_values pctAboveLow False (df_above_low df))"

text \<open>Line 159.\<close>

definition top30_returns :: "('t, fval) quote list \<Rightarrow> ('t, fval) quote list" where
  "top30_returns df = head 5 (sort_values perChange30d False df)"

section \<open>Notation and sample inputs\<close>

text \<open>
  The cells of one data line: for each field name in turn the object's value, the empty
  string where the object has none; once over \<open>csv_headers\<close> and once with the
  fourteen names written out.
\<close>

abbreviation projected :: "(string \<times> json) list \<Rightarrow> json list" where
  "projected kvs \<equiv> map (\<lambda>k. case map_of kvs k of Some v \<Rightarrow> v | None \<Rightarrow> JStr '''') csv_headers"



text \<open>
  What a file opened with \<open>encoding="utf-8"\<close> does with a line when nothing else goes
  wrong: a cell that is a text with a lone surrogate (the byte \<open>ED\<close> followed by a byte
  from \<open>A0\<close> on) cannot be encoded; every other cell is written (a number, a list or
  an object is written as its \<open>str\<close>, which escapes surrogates).
\<close>

fun has_surrogate :: "string \<Rightarrow> bool" where
  "has_surrogate (c # d # cs) =
     ((of_char c = (237 :: nat) \<and> (160 :: nat) \<le> of_char d) \<or> has_surrogate (d # cs))"
| "has_surrogate cs = False"

definition strict_utf8 :: "json list \<Rightarrow> exn option" where
  "strict_utf8 line =
     (if \<exists>cell \<in> set line. case cell of JStr s \<Rightarrow> has_surrogate s | _ \<Rightarrow> False
      then Some UnicodeEncodeError else None)"

text \<open>
  A parser that knows three bodies (\<open>good\<close>: two objects; \<open>mixed\<close>: an object and a
  number; \<open>surrogate\<close>: one object whose symbol is the lone surrogate U+D800), no
  gzip body, and a world where both requests succeed and the target file already exists.
\<close>

definition sample_lib :: lib where
  "sample_lib =
     \<lparr>json_loads = (\<lambda>s.
        if s = ''good'' then
          Some (JDict [(''data'', JList [JDict [(''symbol'', JStr ''TCS''), (''lastPrice'', JNum 3500)],
                                         JDict [(''symbol'', JStr ''INFY''), (''perChange30d'', JNum 2)]])])
        else if s = ''mixed'' then
          Some (JDict [(''data'', JList [JDict [(''symbol'', JStr ''TCS'')], JNum 7])])
        else if s = ''surrogate'' then
          Some (JDict [(''data'', JList [JDict [(''symbol'', JStr [CHR 0xED, CHR 0xA0, CHR 0x80])]])])
        else None),
      gzip_decompress = (\<lambda>s. None),
      decode_utf8 = (\<lambda>s. Some s),
      write_line = strict_utf8\<rparr>"

definition sample_world :: "string \<Rightarrow> world" where
  "sample_world body =
     \<lparr>homepage = Inr \<lparr>status_code = 200, headers = [], content = ''''\<rparr>,
      api = Inr \<lparr>status_code = 200, headers = [], content = body\<rparr>,
      open_error = None,
      fs = [''nifty50_data.csv'' \<mapsto> [[JStr ''old'']]]\<rparr>"

text \<open>
  Whether key \<open>a\<close> may stand before key \<open>b\<close> in a frame sorted by that key: NaN
  comes last in either direction, the other keys ascend or descend.
\<close>

definition may_precede :: "bool \<Rightarrow> fval \<Rightarrow> fval \<Rightarrow> bool" where
  "may_precede ascending a b =
     (b = NaN \<or> (a \<noteq> NaN \<and> (if ascending then fle a b else fle b a)))"

text \<open>
  A small frame: five rows with the daily changes 5, -3, 10, -1, 0; rows A and C are at
  least 30% below their high and at least 20% above their low, row E has no last price.
\<close>

definition sample_quote :: "string \<Rightarrow> fval \<Rightarrow> fval \<Rightarrow> fval \<Rightarrow> fval \<Rightarrow> (string, fval) quote" where
  "sample_quote s p lp yh yl =
     \<lparr>symbol = s, open' = NaN, dayHigh = NaN, dayLow = NaN, lastPrice = lp,
      previousClose = NaN, change = NaN, pChange = p, totalTradedVolume = NaN,
      totalTradedValue = NaN, yearHigh = yh, yearLow = yl, lastUpdateTime = '''',
      perChange30d = NaN\<rparr>"

definition sample_frame :: "(string, fval) quote list" where
  "sample_frame =
     [sample_quote ''A'' (Fin 5) (Fin 69) (Fin 100) (Fin 50),
      sample_quote ''B'' (Fin (- 3)) (Fin 71) (Fin 100) (Fin 70),
      sample_quote ''C'' (Fin 10) (Fin 121) (Fin 400) (Fin 100),
      sample_quote ''D'' (Fin (- 1)) (Fin 119) (Fin 120) (Fin 100),
      sample_quote ''E'' (Fin 0) NaN (Fin 100) (Fin 100)]"

text \<open>
  A raw row as read from the file, and a parser of number texts that knows one text.
\<close>

definition sample_raw :: "string \<Rightarrow> cell \<Rightarrow> cell \<Rightarrow> cell \<Rightarrow> (cell, cell) quote" where
  "sample_raw s lp yh yl =
     \<lparr>symbol = Str s, open' = Flt NaN, dayHigh = Flt NaN, dayLow = Flt NaN, lastPrice = lp,
      previousClose = Flt NaN, change = Flt NaN, pChange = Flt NaN,
      totalTradedVolume = Flt NaN, totalTradedValue = Flt NaN, yearHigh = yh, yearLow = yl,
      lastUpdateTime = Flt NaN, perChange30d = Flt NaN\<rparr>"

definition sample_parse :: "string \<Rightarrow> fval option" where
  "sample_parse s = (if s = ''69'' then Some (Fin 69) else None)"

section \<open>Properties of the Fetcher\<close>

subsection \<open>The write stage\<close>

lemma make_row_cases:
  "(\<exists>kvs row. stock = JDict kvs \<and> make_row stock = Inr row)
   \<or> ((\<forall>kvs. stock \<noteq> JDict kvs) \<and> make_row stock = Inl AttributeError)"
  by (cases stock) (simp_all add: make_row_def Let_def)

lemma dict_to_list_make_row:
  "make_row (JDict kvs) = Inr row \<Longrightarrow> dict_to_list csv_headers row = Inr (projected kvs)"
  by (auto simp add: make_row_def dict_to_list_def csv_headers_def Let_def)

lemma writerow_make_row:
  assumes "make_row (JDict kvs) = Inr row"
  shows "writerow l csv_headers row =
     (case write_line l (projected kvs) of Some e \<Rightarrow> Inl e | None \<Rightarrow> Inr (projected kvs))"
  unfolding writerow_def dict_to_list_make_row [OF assms] by (simp only: sum.case)

lemma writeheader_csv_headers:
  "writeheader l csv_headers =
     (case write_line l (map JStr csv_headers) of Some e \<Rightarrow> Inl e | None \<Rightarrow> Inr (map JStr csv_headers))"
proof -
  have "dict_to_list csv_headers (map (\<lambda>k. (k, JStr k)) csv_headers) = Inr (map JStr csv_headers)"
    by (simp add: dict_to_list_def csv_headers_def)
  then show ?thesis
    unfolding writeheader_def writerow_def by (simp only: sum.case)
qed

lemma write_rows_spec:
  "write_rows l stocks t = (eo, t') \<Longrightarrow>
   \<exists>objs. map JDict objs = takeWhile (\<lambda>s. case s of JDict kvs \<Rightarrow> write_line l (projected kvs) = None | _ \<Rightarrow> False) stocks
     \<and> t' = t @ map projected objs
     \<and> (eo = None \<longleftrightarrow> length objs = length stocks)"
proof (induction stocks arbitrary: t)
  case Nil
  then show ?case by simp
next
  case (Cons stock rest)
  from make_row_cases [of stock] show ?case
  proof (elim disjE exE conjE)
    assume "\<forall>kvs. stock \<noteq> JDict kvs" and "make_row stock = Inl AttributeError"
    with Cons.prems have "\<not> (case stock of JDict kvs \<Rightarrow> write_line l (projected kvs) = None | _ \<Rightarrow> False)" and "t' = t" and "eo \<noteq> None"
      by (auto split: json.splits)
    then show ?thesis
      by (intro exI [of _ "[]"]) simp
  next
    fix kvs row
    assume k: "stock = JDict kvs" and r: "make_row stock = Inr row"
    note w = writerow_make_row [OF r [unfolded k], of l]
    show ?thesis
    proof (cases "write_line l (projected kvs)")
      case (Some e)
      with w have "writerow l csv_headers row = Inl e"
        by (simp only: option.case)
      with r have "write_rows l (stock # rest) t = (Some e, t)"
        by simp
      with Cons.prems have "t' = t" and "eo \<noteq> None"
        by simp_all
      with Some k show ?thesis
        by (intro exI [of _ "[]"]) simp
    next
      case None
      with w have "writerow l csv_headers row = Inr (projected kvs)"
        by (simp only: option.case)
      with Cons.prems r have "write_rows l rest (t @ [projected kvs]) = (eo, t')"
        by simp
      from Cons.IH [OF this] obtain objs where
        o: "map JDict objs = takeWhile (\<lambda>s. case s of JDict kvs \<Rightarrow> write_line l (projected kvs) = None | _ \<Rightarrow> False) rest"
        and p: "t' = (t @ [projected kvs]) @ map projected objs"
        and q: "eo = None \<longleftrightarrow> length objs = length rest"
        by blast
      from None k o p q show ?thesis
        by (intro exI [of _ "kvs # objs"]) simp
    qed
  qed
qed

text \<open>What the write stage leaves behind.\<close>

lemma write_csv_cases:
  assumes "write_csv l fn sd w = (m, f)"
  shows "(\<exists>e. open_error w = Some e \<and> m = [CsvError e] \<and> f = fs w)
       \<or> (\<exists>e. open_error w = None \<and> write_line l (map JStr csv_headers) = Some e
             \<and> m = [CsvError e] \<and> f = (fs w)(fn \<mapsto> []))
       \<or> (\<exists>e. open_error w = None \<and> write_line l (map JStr csv_headers) = None
             \<and> py_iter sd = Inl e \<and> m = [CsvError e]
             \<and> f = (fs w)(fn \<mapsto> [map JStr csv_headers]))
       \<or> (\<exists>stocks objs. open_error w = None \<and> write_line l (map JStr csv_headers) = None
             \<and> py_iter sd = Inr stocks
             \<and> map JDict objs = takeWhile (\<lambda>s. case s of JDict kvs \<Rightarrow> write_line l (projected kvs) = None | _ \<Rightarrow> False) stocks
             \<and> f = (fs w)(fn \<mapsto> map JStr csv_headers # map projected objs)
             \<and> (if length objs = length stocks then m = [Saved fn]
                 else \<exists>e. m = [CsvError e]))"
proof (cases "open_error w")
  case (Some e)
  with assms show ?thesis by (simp add: write_csv_def)
next
  case None
  show ?thesis
  proof (cases "write_line l (map JStr csv_headers)")
    case (Some e)
    with None assms show ?thesis
      by (auto simp add: write_csv_def writeheader_csv_headers)
  next
    case hd: None
    show ?thesis
    proof (cases "py_iter sd")
      case (Inl e)
      with None hd assms show ?thesis
        by (auto simp add: write_csv_def writeheader_csv_headers)
    next
      case (Inr stocks)
      obtain eo t where wr: "write_rows l stocks [map JStr csv_headers] = (eo, t)"
        by (cases "write_rows l stocks [map JStr csv_headers]")
      from write_rows_spec [OF wr] obtain objs where
        o: "map JDict objs = takeWhile (\<lambda>s. case s of JDict kvs \<Rightarrow> write_line l (projected kvs) = None | _ \<Rightarrow> False) stocks"
        and t: "t = [map JStr csv_headers] @ map projected objs"
        and q: "eo = None \<longleftrightarrow> length objs = length stocks"
        by blast
      have mf: "f = (fs w)(fn \<mapsto> t)"
        "if eo = None then m = [Saved fn] else \<exists>e. m = [CsvError e]"
        using None hd Inr wr assms
        by (auto simp add: write_csv_def writeheader_csv_headers split: option.splits)
      from mf(2) q have "if length objs = length stocks then m = [Saved fn]
                 else \<exists>e. m = [CsvError e]"
        by (simp split: if_splits)
      with None hd Inr o t mf(1) show ?thesis
        by auto
    qed
  qed
qed

lemma prime_msgs: "prime w = (m, x) \<Longrightarrow> Saved fn \<notin> set m \<and> CsvError e \<notin> set m"
  by (auto simp add: prime_def split: sum.splits if_splits)

lemma fetch_msgs: "fetch l w = (m, x) \<Longrightarrow> Saved fn \<notin> set m \<and> CsvError e \<notin> set m"
  by (auto simp add: fetch_def fetch_handler_def Let_def split: sum.splits if_splits)

text \<open>The run, stage by stage.\<close>

lemma scrape_cases:
  "(files (scrape_nifty50_data l fn w) = fs w
      \<and> Saved fn \<notin> set (stdout (scrape_nifty50_data l fn w))
      \<and> (\<forall>e. CsvError e \<notin> set (stdout (scrape_nifty50_data l fn w))))
   \<or> (outcome (scrape_nifty50_data l fn w) = Returned
      \<and> (\<exists>m1 m2 m3 data sd.
            prime w = (m1, None) \<and> fetch l w = (m2, Inr data)
            \<and> dict_get data ''data'' (JList []) = Inr sd \<and> truthy sd
            \<and> write_csv l fn sd w = (m3, files (scrape_nifty50_data l fn w))
            \<and> stdout (scrape_nifty50_data l fn w) = m1 @ m2 @ m3))"
proof -
  obtain m1 x where p: "prime w = (m1, x)" by (cases "prime w")
  obtain m2 y where f: "fetch l w = (m2, y)" by (cases "fetch l w")
  note pm = prime_msgs [OF p] and fm = fetch_msgs [OF f]
  show ?thesis
  proof (cases x)
    case (Some oc)
    with p pm show ?thesis by (simp add: scrape_nifty50_data_def)
  next
    case None
    show ?thesis
    proof (cases y)
      case (Inl oc)
      with p f None pm fm show ?thesis by (simp add: scrape_nifty50_data_def)
    next
      case (Inr data)
      show ?thesis
      proof (cases "dict_get data ''data'' (JList [])")
        case (Inl e)
        with p f None Inr pm fm show ?thesis by (simp add: scrape_nifty50_data_def)
      next
        case sd: (Inr sd)
        show ?thesis
        proof (cases "truthy sd")
          case False
          with p f None Inr sd pm fm show ?thesis by (simp add: scrape_nifty50_data_def)
        next
          case True
          obtain m3 g where wc: "write_csv l fn sd w = (m3, g)"
            by (cases "write_csv l fn sd w")
          with p f None Inr sd True show ?thesis by (simp add: scrape_nifty50_data_def)
        qed
      qed
    qed
  qed
qed


subsection \<open>Unfolding the run\<close>

lemmas sample_defs = sample_lib_def sample_world_def strict_utf8_def
lemmas run_defs = scrape_nifty50_data_def prime_def fetch_def fetch_handler_def parse_body_def
  write_csv_def writeheader_def writerow_def dict_to_list_def make_row_def csv_headers_def
  Let_def

subsection \<open>The priming request\<close>

text \<open>
  Claim C8. If the priming request to the site root raises a network error
  (\<open>RequestException\<close>) or returns a status other than 200, the call returns normally
  (no exception escapes), prints exactly one diagnostic, and leaves the file system as
  it was: no output file is created.
\<close>

theorem priming_failure_no_file:
  assumes "homepage w = Inl RequestException \<or> (\<exists>r. homepage w = Inr r \<and> status_code r \<noteq> 200)"
  shows "outcome (scrape_nifty50_data l fn w) = Returned
       \<and> files (scrape_nifty50_data l fn w) = fs w
       \<and> (\<exists>m. stdout (scrape_nifty50_data l fn w) = [m]
              \<and> (m = HomepageUnreachable RequestException \<or> (\<exists>c. c \<noteq> 200 \<and> m = HomepageHTTP c)))"
  using assms by (auto simp add: scrape_nifty50_data_def prime_def)

theorem priming_failure_no_file_witness:
  "outcome (scrape_nifty50_data sample_lib ''nifty50_data.csv''
      \<lparr>homepage = Inr \<lparr>status_code = 503, headers = [], content = ''''\<rparr>,
       api = Inl RequestException, open_error = None, fs = Map.empty\<rparr>) = Returned
   \<and> files (scrape_nifty50_data sample_lib ''nifty50_data.csv''
      \<lparr>homepage = Inr \<lparr>status_code = 503, headers = [], content = ''''\<rparr>,
       api = Inl RequestException, open_error = None, fs = Map.empty\<rparr>) ''nifty50_data.csv'' = None"
proof -
  let ?w = "\<lparr>homepage = Inr \<lparr>status_code = 503, headers = [], content = ''''\<rparr>,
       api = Inl RequestException, open_error = None, fs = Map.empty\<rparr>"
  have h: "homepage ?w = Inl RequestException \<or> (\<exists>r. homepage ?w = Inr r \<and> status_code r \<noteq> 200)"
    by simp
  from priming_failure_no_file [OF h, of sample_lib "''nifty50_data.csv''"]
  show ?thesis by simp
qed

subsection \<open>Parsing the body\<close>

text \<open>
  Claim C3, at a body that is neither JSON nor gzip: the API answers 200, the direct
  parse fails, the decompression fails. The exception of the decompression is not a
  \<open>RequestException\<close>, so the handler of line 65 does not catch it: it leaves the
  call, and nothing is printed after the status code and the headers.
\<close>

theorem unparseable_body_raises:
  "outcome (scrape_nifty50_data sample_lib ''nifty50_data.csv'' (sample_world ''not json''))
     = Raised BadGzipFile
   \<and> stdout (scrape_nifty50_data sample_lib ''nifty50_data.csv'' (sample_world ''not json''))
     = [StatusCode 200, Headers []]"
  by (simp add: run_defs sample_defs)

subsection \<open>The target file\<close>




subsection \<open>The columns\<close>

text \<open>
  Claim C1 fails as stated: in a successful run the header line is not in the order the
  data model lists (\<open>perChange30d\<close> before \<open>lastUpdateTime\<close>).
\<close>

theorem header_order_counterexample:
  "Saved ''nifty50_data.csv''
     \<in> set (stdout (scrape_nifty50_data sample_lib ''nifty50_data.csv'' (sample_world ''good'')))
   \<and> map_option hd
        (files (scrape_nifty50_data sample_lib ''nifty50_data.csv'' (sample_world ''good''))
           ''nifty50_data.csv'')
     \<noteq> Some (map JStr
         [''symbol'', ''open'', ''dayHigh'', ''dayLow'', ''lastPrice'', ''previousClose'',
          ''change'', ''pChange'', ''totalTradedVolume'', ''totalTradedValue'', ''yearHigh'',
          ''yearLow'', ''perChange30d'', ''lastUpdateTime''])"
  by (simp add: run_defs sample_defs)

text \<open>
  Claim C1, amended. In every successful run the file starts with the header line of
  exactly these fourteen names in this order, \<open>lastUpdateTime\<close> before
  \<open>perChange30d\<close>, and every data line has fourteen cells, whatever fields the
  source supplied.
\<close>

theorem header_fourteen_columns:
  assumes "Saved fn \<in> set (stdout (scrape_nifty50_data l fn w))"
  shows "\<exists>rows. files (scrape_nifty50_data l fn w) fn
           = Some (map JStr
               [''symbol'', ''open'', ''dayHigh'', ''dayLow'', ''lastPrice'', ''previousClose'',
                ''change'', ''pChange'', ''totalTradedVolume'', ''totalTradedValue'',
                ''yearHigh'', ''yearLow'', ''lastUpdateTime'', ''perChange30d''] # rows)
         \<and> (\<forall>r \<in> set rows. length r = 14)"
proof -
  from assms scrape_cases [of l fn w] obtain m1 m2 m3 data sd where
    pm: "prime w = (m1, None)" and fm: "fetch l w = (m2, Inr data)"
    and wc: "write_csv l fn sd w = (m3, files (scrape_nifty50_data l fn w))"
    and out: "stdout (scrape_nifty50_data l fn w) = m1 @ m2 @ m3"
    by blast
  from prime_msgs [OF pm, of fn] fetch_msgs [OF fm, of fn]
  have "Saved fn \<notin> set m1" and "Saved fn \<notin> set m2"
    by blast+
  with assms out have s: "Saved fn \<in> set m3"
    by simp
  from write_csv_cases [OF wc] consider
    (failed) e where "m3 = [CsvError e]"
  | (opened) objs where
      "files (scrape_nifty50_data l fn w)
         = (fs w)(fn \<mapsto> map JStr csv_headers # map projected objs)"
    by (auto split: if_splits)
  then obtain objs where
    f: "files (scrape_nifty50_data l fn w)
          = (fs w)(fn \<mapsto> map JStr csv_headers # map projected objs)"
  proof cases
    case failed
    with s show ?thesis by simp
  next
    case opened
    then show ?thesis by (rule that)
  qed
  have "\<forall>r \<in> set (map projected objs). length r = 14"
    by (simp add: csv_headers_def)
  with f show ?thesis
    by (simp add: csv_headers_def)
qed

theorem header_fourteen_columns_witness:
  "files (scrape_nifty50_data sample_lib ''nifty50_data.csv'' (sample_world ''good''))
       ''nifty50_data.csv''
     = Some [map JStr
               [''symbol'', ''open'', ''dayHigh'', ''dayLow'', ''lastPrice'', ''previousClose'',
                ''change'', ''pChange'', ''totalTradedVolume'', ''totalTradedValue'',
                ''yearHigh'', ''yearLow'', ''lastUpdateTime'', ''perChange30d''],
             [JStr ''TCS'', JStr '''', JStr '''', JStr '''', JNum 3500, JStr '''', JStr '''',
              JStr '''', JStr '''', JStr '''', JStr '''', JStr '''', JStr '''', JStr ''''],
             [JStr ''INFY'', JStr '''', JStr '''', JStr '''', JStr '''', JStr '''', JStr '''',
              JStr '''', JStr '''', JStr '''', JStr '''', JStr '''', JStr '''', JNum 2]]"
proof -
  let ?R = "scrape_nifty50_data sample_lib ''nifty50_data.csv'' (sample_world ''good'')"
  have h: "Saved ''nifty50_data.csv'' \<in> set (stdout ?R)"
    by (simp add: run_defs sample_defs)
  from header_fourteen_columns [OF h] obtain rows where
    "files ?R ''nifty50_data.csv''
       = Some (map JStr
               [''symbol'', ''open'', ''dayHigh'', ''dayLow'', ''lastPrice'', ''previousClose'',
                ''change'', ''pChange'', ''totalTradedVolume'', ''totalTradedValue'',
                ''yearHigh'', ''yearLow'', ''lastUpdateTime'', ''perChange30d''] # rows)"
    by blast
  moreover have "tl (the (files ?R ''nifty50_data.csv''))
     = [[JStr ''TCS'', JStr '''', JStr '''', JStr '''', JNum 3500, JStr '''', JStr '''',
              JStr '''', JStr '''', JStr '''', JStr '''', JStr '''', JStr '''', JStr ''''],
             [JStr ''INFY'', JStr '''', JStr '''', JStr '''', JStr '''', JStr '''', JStr '''',
              JStr '''', JStr '''', JStr '''', JStr '''', JStr '''', JStr '''', JNum 2]]"
    by (simp add: run_defs sample_defs)
  ultimately show ?thesis by simp
qed

subsection \<open>One line per object\<close>




section \<open>Properties of the Analyzer\<close>

subsection \<open>The binary exponent and the rounding grid\<close>
















lemma rhe_of_int [simp]: "rhe (of_int n) = n"
  by (simp add: rhe_def)

lemma rhe_bounds: "of_int (rhe r) \<le> r + 1 / 2 \<and> r - 1 / 2 \<le> of_int (rhe r)"
  unfolding rhe_def Let_def by (auto; linarith)









subsection \<open>Rounding is monotone and never NaN\<close>

lemma rnd_cases:
  "rnd x = (if 0 \<le> x
            then (if 2 ^ 1024 \<le> grid x then PInf else Fin (grid x))
            else (if 2 ^ 1024 \<le> grid (- x) then NInf
                  else if grid (- x) = 0 then NZero else Fin (- grid (- x))))"
  by (auto simp add: rnd_def Let_def abs_if)


lemma rnd_not_NaN [simp]: "rnd x \<noteq> NaN"
  by (simp add: rnd_cases)


lemma ford_range: "a \<noteq> NaN \<Longrightarrow> (- 1, 0) \<le> ford a \<and> ford a \<le> (1, 0)"
  by (cases a) simp_all

lemma ford_fzero [simp]: "ford (fzero s) = (0, 0)"
  by (simp add: fzero_def)


lemma ford_finite: "a \<noteq> NaN \<Longrightarrow> \<not> is_inf a \<Longrightarrow> ford a = (0, val a)"
  by (cases a) simp_all
















subsection \<open>Evaluating float arithmetic\<close>

lemma up_numeral: "up (numeral n) a = (if 2 \<le> a then up (pred_numeral n) (a / 2) + 1 else 0)"
  by (simp add: numeral_eq_Suc)

lemma down_numeral: "down (numeral n) a = (if a < 1 then down (pred_numeral n) (2 * a) - 1 else 0)"
  by (simp add: numeral_eq_Suc)

lemmas float_eval = up_numeral down_numeral rnd_def grid_def expo_def rhe_def Let_def
  power_int_minus fmul_def fsub_def fdiv_def fle_def fge_def fzero_def finf_def



subsection \<open>Sorting\<close>

lemma fle_ford: "a \<noteq> NaN \<Longrightarrow> b \<noteq> NaN \<Longrightarrow> fle a b = (ford a \<le> ford b)"
  by (simp add: fle_def)

lemma sorted_non_nan:
  assumes "\<forall>r \<in> set xs. by r \<noteq> NaN"
  shows "sorted_wrt (\<lambda>r s. may_precede True (by r) (by s)) (sort_key (\<lambda>r. ford (by r)) xs)"
proof -
  have "sorted_wrt (\<lambda>r s. ford (by r) \<le> ford (by s)) (sort_key (\<lambda>r. ford (by r)) xs)"
    using sorted_sort_key [of "\<lambda>r. ford (by r)" xs] by (simp add: sorted_map)
  then show ?thesis
  proof (rule sorted_wrt_mono_rel [rotated])
    fix r s
    assume "r \<in> set (sort_key (\<lambda>r. ford (by r)) xs)" "s \<in> set (sort_key (\<lambda>r. ford (by r)) xs)"
      and "ford (by r) \<le> ford (by s)"
    with assms show "may_precede True (by r) (by s)"
      by (simp add: may_precede_def fle_ford)
  qed
qed

lemma sorted_non_nan_desc:
  assumes "\<forall>r \<in> set xs. by r \<noteq> NaN"
  shows "sorted_wrt (\<lambda>r s. may_precede False (by r) (by s))
           (rev (sort_key (\<lambda>r. ford (by r)) (rev xs)))"
proof -
  have "\<forall>r \<in> set (rev xs). by r \<noteq> NaN"
    using assms by simp
  from sorted_non_nan [OF this]
  have "sorted_wrt (\<lambda>r s. may_precede True (by s) (by r))
           (rev (sort_key (\<lambda>r. ford (by r)) (rev xs)))"
    by (simp add: sorted_wrt_rev)
  then show ?thesis
  proof (rule sorted_wrt_mono_rel [rotated])
    fix r s
    assume "r \<in> set (rev (sort_key (\<lambda>r. ford (by r)) (rev xs)))"
      "s \<in> set (rev (sort_key (\<lambda>r. ford (by r)) (rev xs)))"
      and "may_precede True (by s) (by r)"
    with assms show "may_precede False (by r) (by s)"
      by (simp add: may_precede_def)
  qed
qed

lemma sort_values_sorted:
  "sorted_wrt (\<lambda>r s. may_precede ascending (by r) (by s)) (sort_values by ascending df)"
proof -
  let ?nn = "filter (\<lambda>r. by r \<noteq> NaN) df"
  let ?nan = "filter (\<lambda>r. by r = NaN) df"
  have nn: "\<forall>r \<in> set ?nn. by r \<noteq> NaN"
    by simp
  have tail: "sorted_wrt (\<lambda>r s. may_precede ascending (by r) (by s)) ?nan"
    by (rule sorted_wrt_mono_rel [of _ "\<lambda>r s. True"]) (simp_all add: may_precede_def)
  show ?thesis
  proof (cases ascending)
    case True
    with sorted_non_nan [OF nn] tail show ?thesis
      by (simp add: sort_values_def sorted_wrt_append may_precede_def)
  next
    case False
    with sorted_non_nan_desc [OF nn] tail show ?thesis
      by (simp add: sort_values_def sorted_wrt_append may_precede_def)
  qed
qed

lemma sort_values_mset: "mset (sort_values by ascending df) = mset df"
proof -
  have "{#r \<in># mset df. by r \<noteq> NaN#} + {#r \<in># mset df. by r = NaN#} = mset df"
    using multiset_partition [of "mset df" "\<lambda>r. by r \<noteq> NaN"] by simp
  then show ?thesis
    by (simp add: sort_values_def Let_def)
qed

lemma sort_values_set: "set (sort_values by ascending df) = set df"
  using sort_values_mset [of "by" ascending df] by (metis set_mset_mset)

lemma sort_values_length: "length (sort_values by ascending df) = length df"
  using sort_values_mset [of "by" ascending df] by (metis size_mset)

lemma head_length: "length (head n (sort_values by ascending df)) = min n (length df)"
  by (simp add: head_def sort_values_length min.commute)

lemma head_sorted:
  "sorted_wrt (\<lambda>r s. may_precede ascending (by r) (by s)) (head n (sort_values by ascending df))"
  unfolding head_def by (rule sorted_wrt_take) (rule sort_values_sorted)

lemma head_set: "set (head n (sort_values by ascending df)) \<subseteq> set df"
  using set_take_subset [of n "sort_values by ascending df"]
  by (simp add: head_def sort_values_set)

lemma head_top:
  "\<exists>rest. mset (head n (sort_values by ascending df) @ rest) = mset df
     \<and> (\<forall>r \<in> set (head n (sort_values by ascending df)). \<forall>s \<in> set rest.
          may_precede ascending (by r) (by s))"
proof -
  let ?s = "sort_values by ascending df"
  have "sorted_wrt (\<lambda>r s. may_precede ascending (by r) (by s)) (take n ?s @ drop n ?s)"
    using sort_values_sorted [of ascending "by" df] by simp
  then have "\<forall>r \<in> set (take n ?s). \<forall>s \<in> set (drop n ?s). may_precede ascending (by r) (by s)"
    unfolding sorted_wrt_append by blast
  moreover have "mset (take n ?s @ drop n ?s) = mset df"
    by (simp only: append_take_drop_id sort_values_mset)
  ultimately show ?thesis
    unfolding head_def by blast
qed

lemma map_insort_key: "map f (insort_key (\<lambda>x. g (f x)) x xs) = insort_key g (f x) (map f xs)"
  by (induction xs) simp_all

lemma map_sort_key: "map f (sort_key (\<lambda>x. g (f x)) xs) = sort_key g (map f xs)"
  by (induction xs) (simp_all add: map_insort_key)

lemma map_sort_values:
  "map by (sort_values by ascending df) = sort_values (\<lambda>x. x) ascending (map by df)"
proof -
  let ?nn = "filter (\<lambda>r. by r \<noteq> NaN) df"
  have f1: "filter (\<lambda>x. x \<noteq> NaN) (map by df) = map by ?nn"
    and f2: "filter (\<lambda>x. x = NaN) (map by df) = map by (filter (\<lambda>r. by r = NaN) df)"
    by (simp_all add: filter_map comp_def)
  have up: "map by (sort_key (\<lambda>r. ford (by r)) ?nn) = sort_key ford (map by ?nn)"
    by (rule map_sort_key)
  have "map by (rev (sort_key (\<lambda>r. ford (by r)) (rev ?nn)))
          = rev (map by (sort_key (\<lambda>r. ford (by r)) (rev ?nn)))"
    by (simp only: rev_map)
  also have "\<dots> = rev (sort_key ford (map by (rev ?nn)))"
    by (simp only: map_sort_key)
  also have "\<dots> = rev (sort_key ford (rev (map by ?nn)))"
    by (simp only: rev_map)
  finally have down: "map by (rev (sort_key (\<lambda>r. ford (by r)) (rev ?nn)))
          = rev (sort_key ford (rev (map by ?nn)))" .
  show ?thesis
    unfolding sort_values_def Let_def f1 f2 map_append
    by (cases ascending) (simp_all only: up down if_True if_False)
qed

lemma map_head: "map by (head n (sort_values by ascending df))
    = head n (sort_values (\<lambda>x. x) ascending (map by df))"
  by (simp only: head_def take_map [symmetric] map_sort_values)

subsection \<open>The added columns\<close>

lemma trunc_add [simp]: "quote.truncate (add_pctBelowHigh r) = r"
  by (simp add: add_pctBelowHigh_def quote.defs below_high.defs)

lemma sel_add [simp]:
  "lastPrice (add_pctBelowHigh r) = lastPrice r"
  "yearHigh (add_pctBelowHigh r) = yearHigh r"
  "pctBelowHigh (add_pctBelowHigh r)
     = fmul (fdiv (fsub (yearHigh r) (lastPrice r)) (yearHigh r)) (Fin 100)"
  by (simp_all add: add_pctBelowHigh_def quote.defs below_high.defs)

lemma trunc_add_above [simp]: "quote.truncate (add_pctAboveLow r) = r"
  by (simp add: add_pctAboveLow_def quote.defs above_low.defs)

lemma sel_add_above [simp]:
  "lastPrice (add_pctAboveLow r) = lastPrice r"
  "yearLow (add_pctAboveLow r) = yearLow r"
  "pctAboveLow (add_pctAboveLow r)
     = fmul (fdiv (fsub (lastPrice r) (yearLow r)) (yearLow r)) (Fin 100)"
  by (simp_all add: add_pctAboveLow_def quote.defs above_low.defs)

lemma fle_NaN_right [simp]: "fle a NaN = False"
  by (simp add: fle_def)

lemma fle_NaN_left [simp]: "fle NaN b = False"
  by (simp add: fle_def)

lemma fmul_NaN_right [simp]: "fmul a NaN = NaN"
  by (simp add: fmul_def)


lemma df_below_high_rows:
  "v \<in> set (df_below_high df) \<Longrightarrow>
   quote.truncate v \<in> set df \<and> below_high_mask (quote.truncate v)
   \<and> fle (lastPrice v) (fmul (rnd 0.70) (yearHigh v))
   \<and> pctBelowHigh v = fmul (fdiv (fsub (yearHigh v) (lastPrice v)) (yearHigh v)) (Fin 100)"
  by (auto simp add: df_below_high_def below_high_mask_def)

lemma df_above_low_rows:
  "v \<in> set (df_above_low df) \<Longrightarrow>
   quote.truncate v \<in> set df \<and> above_low_mask (quote.truncate v)
   \<and> fge (lastPrice v) (fmul (rnd 1.20) (yearLow v))
   \<and> pctAboveLow v = fmul (fdiv (fsub (lastPrice v) (yearLow v)) (yearLow v)) (Fin 100)"
  by (auto simp add: df_above_low_def above_low_mask_def)



lemmas view_defs = stocks_30_below_high_def stocks_20_above_low_def df_below_high_def
  df_above_low_def below_high_mask_def above_low_mask_def head_def sort_values_def
  sample_frame_def sample_quote_def float_eval

subsection \<open>Daily movers\<close>

text \<open>
  Claim C4. The top-5 gainers are the first five rows of the frame sorted by
  \<open>pChange\<close> descending, the top-5 losers the first five sorted ascending: each view
  has five rows (all rows of a shorter frame), is ordered by \<open>pChange\<close> in its
  direction with missing values last, and together with some remainder makes up the
  whole frame, no row of the remainder ranking before a row of the view. For the
  \<open>pChange\<close> values 5, -3, 10, -1, 0 the gainers read 10, 5, 0, -1, -3 and the losers
  -3, -1, 0, 5, 10.
\<close>

theorem daily_movers:
  "length (top5_gainers df) = min 5 (length df)
   \<and> sorted_wrt (\<lambda>r s. may_precede False (pChange r) (pChange s)) (top5_gainers df)
   \<and> (\<exists>rest. mset (top5_gainers df @ rest) = mset df
         \<and> (\<forall>r \<in> set (top5_gainers df). \<forall>s \<in> set rest.
               may_precede False (pChange r) (pChange s)))
   \<and> length (top5_losers df) = min 5 (length df)
   \<and> sorted_wrt (\<lambda>r s. may_precede True (pChange r) (pChange s)) (top5_losers df)
   \<and> (\<exists>rest. mset (top5_losers df @ rest) = mset df
         \<and> (\<forall>r \<in> set (top5_losers df). \<forall>s \<in> set rest.
               may_precede True (pChange r) (pChange s)))
   \<and> (map pChange df = [Fin 5, Fin (- 3), Fin 10, Fin (- 1), Fin 0] \<longrightarrow>
        map pChange (top5_gainers df) = [Fin 10, Fin 5, Fin 0, Fin (- 1), Fin (- 3)]
        \<and> map pChange (top5_losers df) = [Fin (- 3), Fin (- 1), Fin 0, Fin 5, Fin 10])"
proof -
  have ex: "map pChange df = [Fin 5, Fin (- 3), Fin 10, Fin (- 1), Fin 0] \<longrightarrow>
        map pChange (top5_gainers df) = [Fin 10, Fin 5, Fin 0, Fin (- 1), Fin (- 3)]
        \<and> map pChange (top5_losers df) = [Fin (- 3), Fin (- 1), Fin 0, Fin 5, Fin 10]"
    unfolding top5_gainers_def top5_losers_def map_head
    by (simp add: head_def sort_values_def)
  show ?thesis
    unfolding top5_gainers_def top5_losers_def
    using ex [unfolded top5_gainers_def top5_losers_def]
    by (intro conjI head_length head_sorted head_top)
qed

theorem daily_movers_witness:
  "map pChange (top5_gainers sample_frame) = [Fin 10, Fin 5, Fin 0, Fin (- 1), Fin (- 3)]
   \<and> map pChange (top5_losers sample_frame) = [Fin (- 3), Fin (- 1), Fin 0, Fin 5, Fin 10]"
proof -
  have h: "map pChange sample_frame = [Fin 5, Fin (- 3), Fin 10, Fin (- 1), Fin 0]"
    by (simp add: sample_frame_def sample_quote_def)
  from daily_movers [of sample_frame] h show ?thesis
    by blast
qed

subsection \<open>Below the 52-week high\<close>



subsection \<open>Above the 52-week low\<close>



subsection \<open>Missing values\<close>

text \<open>
  Claim C9. A row whose \<open>lastPrice\<close> or \<open>yearHigh\<close> becomes NaN under the numeric
  coercion is not a row of the below-high view, and a row whose \<open>lastPrice\<close> or
  \<open>yearLow\<close> becomes NaN is not a row of the above-low view: a text that is not a
  number and a blank cell coerce to NaN, and no comparison with NaN holds.
\<close>

theorem missing_values_never_selected:
  "(to_numeric parse (lastPrice raw) = NaN \<or> to_numeric parse (yearHigh raw) = NaN \<longrightarrow>
      coerce_row parse raw \<notin> quote.truncate ` set (stocks_30_below_high (coerce parse df)))
   \<and> (to_numeric parse (lastPrice raw) = NaN \<or> to_numeric parse (yearLow raw) = NaN \<longrightarrow>
      coerce_row parse raw \<notin> quote.truncate ` set (stocks_20_above_low (coerce parse df)))
   \<and> (parse s = None \<longrightarrow> to_numeric parse (Str s) = NaN)
   \<and> to_numeric parse (Flt NaN) = NaN
   \<and> \<not> fle NaN x \<and> \<not> fle x NaN \<and> \<not> fge NaN x \<and> \<not> fge x NaN"
proof -
  have cmp: "\<not> fle NaN x \<and> \<not> fle x NaN \<and> \<not> fge NaN x \<and> \<not> fge x NaN"
    by (simp add: fge_def)
  have b: "to_numeric parse (lastPrice raw) = NaN \<or> to_numeric parse (yearHigh raw) = NaN \<longrightarrow>
      coerce_row parse raw \<notin> quote.truncate ` set (stocks_30_below_high (coerce parse df))"
  proof (intro impI notI)
    assume n: "to_numeric parse (lastPrice raw) = NaN \<or> to_numeric parse (yearHigh raw) = NaN"
    assume "coerce_row parse raw \<in> quote.truncate ` set (stocks_30_below_high (coerce parse df))"
    then obtain v where v: "v \<in> set (stocks_30_below_high (coerce parse df))"
      and c: "coerce_row parse raw = quote.truncate v"
      by blast
    from v head_set [of 5 pctBelowHigh False "df_below_high (coerce parse df)"]
    have "v \<in> set (df_below_high (coerce parse df))"
      unfolding stocks_30_below_high_def by blast
    from df_below_high_rows [OF this] c have "below_high_mask (coerce_row parse raw)"
      by simp
    moreover have "\<not> below_high_mask (coerce_row parse raw)"
      using n by (auto simp add: below_high_mask_def coerce_row_def)
    ultimately show False by blast
  qed
  have a: "to_numeric parse (lastPrice raw) = NaN \<or> to_numeric parse (yearLow raw) = NaN \<longrightarrow>
      coerce_row parse raw \<notin> quote.truncate ` set (stocks_20_above_low (coerce parse df))"
  proof (intro impI notI)
    assume n: "to_numeric parse (lastPrice raw) = NaN \<or> to_numeric parse (yearLow raw) = NaN"
    assume "coerce_row parse raw \<in> quote.truncate ` set (stocks_20_above_low (coerce parse df))"
    then obtain v where v: "v \<in> set (stocks_20_above_low (coerce parse df))"
      and c: "coerce_row parse raw = quote.truncate v"
      by blast
    from v head_set [of 5 pctAboveLow False "df_above_low (coerce parse df)"]
    have "v \<in> set (df_above_low (coerce parse df))"
      unfolding stocks_20_above_low_def by blast
    from df_above_low_rows [OF this] c have "above_low_mask (coerce_row parse raw)"
      by simp
    moreover have "\<not> above_low_mask (coerce_row parse raw)"
      using n by (auto simp add: above_low_mask_def fge_def coerce_row_def)
    ultimately show False by blast
  qed
  have t: "parse s = None \<longrightarrow> to_numeric parse (Str s) = NaN"
    by simp
  from a b t cmp show ?thesis by simp
qed

theorem missing_values_never_selected_witness:
  "to_numeric sample_parse (lastPrice (sample_raw ''X'' (Str ''n/a'') (Flt (Fin 100)) (Flt (Fin 50)))) = NaN
   \<and> coerce_row sample_parse (sample_raw ''X'' (Str ''n/a'') (Flt (Fin 100)) (Flt (Fin 50)))
       \<notin> quote.truncate ` set (stocks_30_below_high (coerce sample_parse
            [sample_raw ''X'' (Str ''n/a'') (Flt (Fin 100)) (Flt (Fin 50)),
             sample_raw ''Y'' (Str ''69'') (Flt (Fin 100)) (Flt (Fin 50))]))
   \<and> coerce_row sample_parse (sample_raw ''X'' (Str ''n/a'') (Flt (Fin 100)) (Flt (Fin 50)))
       \<notin> quote.truncate ` set (stocks_20_above_low (coerce sample_parse
            [sample_raw ''X'' (Str ''n/a'') (Flt (Fin 100)) (Flt (Fin 50)),
             sample_raw ''Y'' (Str ''69'') (Flt (Fin 100)) (Flt (Fin 50))]))
   \<and> map symbol (stocks_30_below_high (coerce sample_parse
            [sample_raw ''X'' (Str ''n/a'') (Flt (Fin 100)) (Flt (Fin 50)),
             sample_raw ''Y'' (Str ''69'') (Flt (Fin 100)) (Flt (Fin 50))])) = [Str ''Y'']"
proof -
  let ?x = "sample_raw ''X'' (Str ''n/a'') (Flt (Fin 100)) (Flt (Fin 50))"
  let ?df = "[?x, sample_raw ''Y'' (Str ''69'') (Flt (Fin 100)) (Flt (Fin 50))]"
  have h: "to_numeric sample_parse (lastPrice ?x) = NaN"
    by (simp add: sample_raw_def sample_parse_def)
  have s: "map symbol (stocks_30_below_high (coerce sample_parse ?df)) = [Str ''Y'']"
    by (simp add: view_defs coerce_def coerce_row_def sample_raw_def sample_parse_def
        add_pctBelowHigh_def quote.defs below_high.defs)
  from missing_values_never_selected [where parse = sample_parse and raw = ?x and df = ?df] h s
  show ?thesis by blast
qed

subsection \<open>The thresholds and the metrics\<close>




end
